theory Spec2Isabelle
  imports Complex_Main "HOL-Library.Option_ord"
begin

section \<open>Data model\<close>

text \<open>
  The edge functions of the repository are TypeScript running on Deno against a Postgres
  table \<open>prediction_history\<close>. JavaScript numbers are modelled as the reals they
  approximate (no rounding error, no NaN, no infinities); timestamps are integers
  (milliseconds); a nullable column is an \<open>option\<close>.

  The column \<open>prediction\<close> carries the check constraint
  \<open>prediction IN ('bullish', 'bearish', 'neutral')\<close>, so it is a three-valued datatype.
  \<open>id\<close> is the primary key (named \<open>id_col\<close> here, \<open>id\<close> being the identity of HOL);
  \<open>confidence\<close> is declared \<open>NOT NULL\<close>. Only the columns the verification code and the
  accuracy statistics read or write are kept.
\<close>

datatype direction = bullish | bearish | neutral

record prediction_record =
  id_col :: string
  symbol :: string
  prediction :: direction
  confidence :: real
  created_at :: "int option"
  price_at_prediction :: "real option"
  actual_outcome :: "direction option"
  price_at_verification :: "real option"
  price_change_percent :: "real option"
  was_accurate :: "bool option"
  verified_at :: "int option"

text \<open>The object \<open>verifyPrediction\<close> returns and the inline verification loops write.\<close>

record verification =
  v_actual_outcome :: direction
  v_price_at_verification :: real
  v_price_change_percent :: real
  v_was_accurate :: bool
  v_verified_at :: int

section \<open>Verification of one prediction\<close>

text \<open>
  \<open>const priceChange = ((currentPrice - priceAtPrediction) / priceAtPrediction) * 100\<close>,
  the same expression at every call site. The source evaluates it in double arithmetic;
  the value here is the exact quotient, which the computed one matches up to rounding
  (for 100 and 100.8 the source obtains 0.7999999999999973, for 10 and 10.08 it obtains
  0.8000000000000007). Statements about one particular change are therefore made for a
  range of changes that holds the computed value.
\<close>

definition priceChange :: "real \<Rightarrow> real \<Rightarrow> real" where
  "priceChange currentPrice priceAtPrediction =
     ((currentPrice - priceAtPrediction) / priceAtPrediction) * 100"

subsection \<open>The scheduled verification job (\<open>verifyPrediction\<close>, band 2)\<close>

text \<open>
  \<open>if (priceChange > 2) actualOutcome = 'bullish';
  else if (priceChange < -2) actualOutcome = 'bearish';
  else actualOutcome = 'neutral';\<close>
\<close>

definition verifyPrediction_outcome :: "real \<Rightarrow> direction" where
  "verifyPrediction_outcome pc =
     (if pc > 2 then bullish
      else if pc < - 2 then bearish
      else neutral)"

text \<open>The chain that sets \<open>wasAccurate\<close> in \<open>verifyPrediction\<close>.\<close>

definition verifyPrediction_accurate :: "direction \<Rightarrow> real \<Rightarrow> bool" where
  "verifyPrediction_accurate pred pc =
     (let actualOutcome = verifyPrediction_outcome pc in
      if pred = actualOutcome then True
      else if pred = neutral \<and> \<bar>pc\<bar> < 3 then True
      else if pred = bullish \<and> pc > 0.5 then True
      else if pred = bearish \<and> pc < - 0.5 then True
      else False)"

text \<open>
  \<open>verifyPrediction(prediction, currentPrice)\<close>: \<open>null\<close> when the stored price is missing,
  zero or negative (\<open>!priceAtPrediction || priceAtPrediction <= 0\<close>), the verification
  object otherwise. \<open>new Date()\<close> is the parameter \<open>now\<close>.
\<close>

definition verifyPrediction :: "int \<Rightarrow> prediction_record \<Rightarrow> real \<Rightarrow> verification option" where
  "verifyPrediction now pred currentPrice =
     (case price_at_prediction pred of
        None \<Rightarrow> None
      | Some priceAtPrediction \<Rightarrow>
          if priceAtPrediction = 0 \<or> priceAtPrediction \<le> 0 then None
          else
            let pc = priceChange currentPrice priceAtPrediction in
            Some \<lparr> v_actual_outcome = verifyPrediction_outcome pc,
                   v_price_at_verification = currentPrice,
                   v_price_change_percent = pc,
                   v_was_accurate = verifyPrediction_accurate (prediction pred) pc,
                   v_verified_at = now \<rparr>)"

subsection \<open>The inline verification loops (band 1.5)\<close>

text \<open>
  The handler of \<open>batch-verify\<close>, the verification loop of \<open>auto-update\<close> and
  \<open>verifyPastPredictions\<close> of the prediction function carry the same text:
  \<open>if (priceChange > 1.5) actualOutcome = 'bullish';
  else if (priceChange < -1.5) actualOutcome = 'bearish';
  else actualOutcome = 'neutral';\<close>
\<close>

definition batchVerify_outcome :: "real \<Rightarrow> direction" where
  "batchVerify_outcome pc =
     (if pc > 1.5 then bullish
      else if pc < - 1.5 then bearish
      else neutral)"

definition batchVerify_accurate :: "direction \<Rightarrow> real \<Rightarrow> bool" where
  "batchVerify_accurate pred pc =
     (let actualOutcome = batchVerify_outcome pc in
      if pred = actualOutcome then True
      else if pred = neutral \<and> \<bar>pc\<bar> < 2 then True
      else if pred = bullish \<and> pc > 0.8 then True
      else if pred = bearish \<and> pc < - 0.8 then True
      else False)"

text \<open>
  The body of the inline loops for one record: \<open>continue\<close> (here \<open>None\<close>) on a missing or
  non-positive stored price, the object handed to \<open>update\<close> otherwise.
\<close>

definition batchVerify_one :: "int \<Rightarrow> prediction_record \<Rightarrow> real \<Rightarrow> verification option" where
  "batchVerify_one now pred currentPrice =
     (case price_at_prediction pred of
        None \<Rightarrow> None
      | Some priceAtPrediction \<Rightarrow>
          if priceAtPrediction = 0 \<or> priceAtPrediction \<le> 0 then None
          else
            let pc = priceChange currentPrice priceAtPrediction in
            Some \<lparr> v_actual_outcome = batchVerify_outcome pc,
                   v_price_at_verification = currentPrice,
                   v_price_change_percent = pc,
                   v_was_accurate = batchVerify_accurate (prediction pred) pc,
                   v_verified_at = now \<rparr>)"

text \<open>
  A record as the prediction code inserts it: the verification columns are absent, so
  they are null.
\<close>

definition pending_record ::
  "string \<Rightarrow> string \<Rightarrow> direction \<Rightarrow> real \<Rightarrow> int option \<Rightarrow> real option \<Rightarrow> prediction_record" where
  "pending_record i s p c t pap =
     \<lparr> id_col = i, symbol = s, prediction = p, confidence = c, created_at = t,
       price_at_prediction = pap, actual_outcome = None, price_at_verification = None,
       price_change_percent = None, was_accurate = None, verified_at = None \<rparr>"

section \<open>The scorers\<close>

datatype risk = low | medium | high

datatype momentum = accelerating | decelerating | stable

text \<open>
  What both scorers return. The fields \<open>prediction\<close> and \<open>confidence\<close> carry a prime, the
  plain names being columns of the table. \<open>shortTermOutlook\<close> and \<open>mediumTermOutlook\<close>
  are English sentences for display, built from the other fields; they are left out, and so
  is the \<open>keyFactors\<close> list of \<open>generatePrediction\<close>, which only formats its arguments
  with \<open>toFixed\<close>.
\<close>

record forecast =
  prediction' :: direction
  confidence' :: real
  riskLevel :: risk
  sentimentMomentum :: momentum
  source :: string

record algorithmic_forecast = forecast +
  keyFactors :: "string list"

text \<open>\<open>Math.round\<close>: the nearest integer, a half rounding up.\<close>

definition js_round :: "real \<Rightarrow> int" where
  "js_round x = \<lfloor>x + 1 / 2\<rfloor>"

subsection \<open>\<open>generateAlgorithmicPrediction\<close> (the prediction function)\<close>

text \<open>The first chain of the function: it assigns \<open>prediction\<close> and \<open>confidence\<close>.\<close>

definition algorithmic_score :: "real \<Rightarrow> real \<Rightarrow> direction \<times> real" where
  "algorithmic_score avgSentiment trend =
     (let sentimentStrength = \<bar>avgSentiment\<bar>;
          trendStrength = \<bar>trend\<bar>
      in
      if avgSentiment > 0.15 \<and> trend \<ge> 0 then
        (bullish, min 0.85 (0.5 + sentimentStrength + trendStrength * 0.5))
      else if avgSentiment < - 0.15 \<and> trend \<le> 0 then
        (bearish, min 0.85 (0.5 + sentimentStrength + trendStrength * 0.5))
      else if avgSentiment > 0.05 then
        (bullish, min 0.65 (0.4 + sentimentStrength))
      else if avgSentiment < - 0.05 then
        (bearish, min 0.65 (0.4 + sentimentStrength))
      else
        (neutral, 0.5 + (1 - sentimentStrength) * 0.3))"

text \<open>
  \<open>volatility = posCount > 0 && negCount > 0
     ? Math.abs(posCount - negCount) / (posCount + negCount) : 0.5\<close> and the chain on it.
\<close>

definition algorithmic_risk :: "nat \<Rightarrow> nat \<Rightarrow> risk" where
  "algorithmic_risk posCount negCount =
     (let volatility =
            (if posCount > 0 \<and> negCount > 0
             then \<bar>real posCount - real negCount\<bar> / (real posCount + real negCount)
             else 0.5)
      in
      if volatility < 0.3 then high
      else if volatility < 0.6 then medium
      else low)"

definition algorithmic_momentum :: "real \<Rightarrow> momentum" where
  "algorithmic_momentum trend =
     (let trendStrength = \<bar>trend\<bar> in
      if trendStrength > 0.1 then (if trend > 0 then accelerating else decelerating)
      else stable)"

text \<open>The pushes onto \<open>keyFactors\<close>, in the order of the source.\<close>

definition algorithmic_keyFactors :: "real \<Rightarrow> nat \<Rightarrow> nat \<Rightarrow> nat \<Rightarrow> string list" where
  "algorithmic_keyFactors trend posCount negCount totalArticles =
     (let k1 = (if real posCount > real negCount * 1.5
                then [''Strong positive news coverage''] else []);
          k2 = k1 @ (if real negCount > real posCount * 1.5
                then [''Elevated negative sentiment''] else []);
          k3 = k2 @ (if trend > 0.05 then [''Improving sentiment trend''] else []);
          k4 = k3 @ (if trend < - 0.05 then [''Declining sentiment momentum''] else []);
          k5 = k4 @ (if totalArticles > 20 then [''High media attention''] else []);
          k6 = k5 @ (if totalArticles < 5 then [''Limited news coverage''] else [])
      in if length k6 = 0 then k6 @ [''Mixed market signals''] else k6)"

definition generateAlgorithmicPrediction ::
  "string \<Rightarrow> real \<Rightarrow> real \<Rightarrow> nat \<Rightarrow> nat \<Rightarrow> nat \<Rightarrow> nat \<Rightarrow> algorithmic_forecast" where
  "generateAlgorithmicPrediction symb avgSentiment trend posCount negCount neuCount totalArticles =
     (let (dir, conf) = algorithmic_score avgSentiment trend in
      \<lparr> prediction' = dir,
        confidence' = real_of_int (js_round (conf * 100)) / 100,
        riskLevel = algorithmic_risk posCount negCount,
        sentimentMomentum = algorithmic_momentum trend,
        source = ''algorithmic'',
        keyFactors = take 3 (algorithmic_keyFactors trend posCount negCount totalArticles) \<rparr>)"

subsection \<open>\<open>generatePrediction\<close> (the lightweight scorer of \<open>auto-update\<close>)\<close>

text \<open>
  \<open>const combinedScore = avgSentiment + (trend * 0.5) + (priceChange * 0.3)\<close>
\<close>

definition combinedScore :: "real \<Rightarrow> real \<Rightarrow> real \<Rightarrow> real" where
  "combinedScore avgSentiment trend priceChangePct =
     avgSentiment + (trend * 0.5) + (priceChangePct * 0.3)"

definition generatePrediction :: "string \<Rightarrow> real \<Rightarrow> real \<Rightarrow> real \<Rightarrow> forecast" where
  "generatePrediction symb avgSentiment trend priceChangePct =
     (let score = combinedScore avgSentiment trend priceChangePct;
          (dir, conf, rsk) =
            (if score > 0.8 then (bullish, min 0.9 (0.6 + score * 0.2), low)
             else if score < - 0.8 then (bearish, min 0.9 (0.6 + \<bar>score\<bar> * 0.2), high)
             else (neutral, 0.5 + \<bar>score\<bar> * 0.3, medium))
      in
      \<lparr> prediction' = dir,
        confidence' = conf,
        riskLevel = rsk,
        sentimentMomentum =
          (if trend > 0.1 then accelerating
           else if trend < - 0.1 then decelerating
           else stable),
        source = ''algorithmic'' \<rparr>)"

text \<open>
  The call site in the handler of \<open>auto-update\<close>. \<open>fetchNewsArticles\<close> is a placeholder
  that returns the empty list, so \<open>articles\<close> is a parameter here (the list of their
  \<open>sentiment_score\<close>); \<open>change\<close> is \<open>livePrice.change\<close>, the quote's percent change since
  the previous close:
  \<open>const trend = livePrice.change / 100; const priceChange = livePrice.change;\<close>
\<close>

definition autoUpdate_avgSentiment :: "real list \<Rightarrow> real" where
  "autoUpdate_avgSentiment articles =
     (if length articles > 0 then sum_list articles / real (length articles) else 0)"

definition autoUpdate_prediction :: "string \<Rightarrow> real list \<Rightarrow> real \<Rightarrow> forecast" where
  "autoUpdate_prediction symb articles change =
     (let avgSentiment = autoUpdate_avgSentiment articles;
          trend = change / 100;
          priceChangePct = change
      in generatePrediction symb avgSentiment trend priceChangePct)"

section \<open>The prediction function\<close>

text \<open>
  The handler of the prediction function (the source file with \<open>verifyPastPredictions\<close>,
  \<open>calculateAccuracyStats\<close> and \<open>generateAlgorithmicPrediction\<close>). What it reads from
  the network and the database is its input: the quote, the rows of \<open>articles\<close>, the rows
  of the history query, the reply of the language model and the outcome of the insert.
  \<open>verifyPastPredictions\<close> writes to the table and returns nothing; it reaches the
  response only through the history rows, which are read after it and are an input here.
\<close>

subsection \<open>Sentiment statistics\<close>

text \<open>
  A row of \<open>articles\<close> as the query selects it. The query keeps only rows whose
  \<open>sentiment_compound\<close> is not null, and on a number \<open>a.sentiment_compound || 0\<close> is the
  number itself.
\<close>

record article =
  sentiment_compound :: real
  sentiment_label :: string
  published :: int
  title :: string

text \<open>
  \<open>xs.length > 0 ? xs.reduce((sum, a) => sum + (a.sentiment_compound || 0), 0) / xs.length : 0\<close>,
  written out three times in the handler: for all rows, for \<open>recentArticles\<close> and for
  \<open>olderArticles\<close>.
\<close>

definition meanCompound :: "article list \<Rightarrow> real" where
  "meanCompound xs =
     (if length xs > 0
      then foldl (\<lambda>sum a. sum + sentiment_compound a) 0 xs / real (length xs)
      else 0)"

definition countLabel :: "string \<Rightarrow> article list \<Rightarrow> nat" where
  "countLabel l xs = length (filter (\<lambda>a. sentiment_label a = l) xs)"

text \<open>
  \<open>d.setDate(d.getDate() - n)\<close> on the current time, in milliseconds, for a clock in
  UTC (no daylight saving shift).
\<close>

definition daysAgo :: "int \<Rightarrow> int \<Rightarrow> int" where
  "daysAgo now n = now - n * 86400000"

definition recentArticles :: "int \<Rightarrow> article list \<Rightarrow> article list" where
  "recentArticles now sentimentData =
     filter (\<lambda>a. published a \<ge> daysAgo now 7) sentimentData"

definition olderArticles :: "int \<Rightarrow> article list \<Rightarrow> article list" where
  "olderArticles now sentimentData =
     filter (\<lambda>a. published a \<ge> daysAgo now 14 \<and> published a < daysAgo now 7) sentimentData"

text \<open>\<open>const trend = recentAvg - olderAvg\<close>\<close>

definition sentimentTrend :: "int \<Rightarrow> article list \<Rightarrow> real" where
  "sentimentTrend now sentimentData =
     (let recentAvg = meanCompound (recentArticles now sentimentData);
          olderAvg = meanCompound (olderArticles now sentimentData)
      in recentAvg - olderAvg)"

subsection \<open>\<open>calculateAccuracyStats\<close>\<close>

record type_stats =
  t_total :: nat
  t_correct :: nat

record by_type =
  bt_bullish :: type_stats
  bt_bearish :: type_stats
  bt_neutral :: type_stats

record accuracy_stats =
  totalPredictions :: nat
  verifiedPredictions :: nat
  accuratePredictions :: nat
  accuracyRate :: real
  byType :: by_type
  avgConfidence :: real

text \<open>
  \<open>byType[type].total++; if (p.was_accurate) byType[type].correct++;\<close> The fields
  \<open>total\<close> and \<open>correct\<close> are \<open>t_total\<close> and \<open>t_correct\<close> here. The guard
  \<open>if (byType[type])\<close> holds for each of the three values the column can take.
\<close>

definition bump :: "bool \<Rightarrow> type_stats \<Rightarrow> type_stats" where
  "bump ok t =
     \<lparr> t_total = t_total t + 1, t_correct = (if ok then t_correct t + 1 else t_correct t) \<rparr>"

definition tally :: "by_type \<Rightarrow> prediction_record \<Rightarrow> by_type" where
  "tally b p =
     (let ok = (was_accurate p = Some True) in
      case prediction p of
        bullish \<Rightarrow> b\<lparr>bt_bullish := bump ok (bt_bullish b)\<rparr>
      | bearish \<Rightarrow> b\<lparr>bt_bearish := bump ok (bt_bearish b)\<rparr>
      | neutral \<Rightarrow> b\<lparr>bt_neutral := bump ok (bt_neutral b)\<rparr>)"

text \<open>
  \<open>p.confidence || 0\<close> is the confidence itself, the column being \<open>NOT NULL\<close>. Both
  rates are percentages: the quotient is multiplied by 100.
\<close>

definition calculateAccuracyStats :: "prediction_record list \<Rightarrow> accuracy_stats" where
  "calculateAccuracyStats history =
     (let verified = filter (\<lambda>p. was_accurate p \<noteq> None) history;
          accurate = filter (\<lambda>p. was_accurate p = Some True) verified;
          zero = \<lparr> t_total = 0, t_correct = 0 \<rparr>
      in
      \<lparr> totalPredictions = length history,
        verifiedPredictions = length verified,
        accuratePredictions = length accurate,
        accuracyRate =
          (if length verified > 0
           then (real (length accurate) / real (length verified)) * 100
           else 0),
        byType = foldl tally \<lparr> bt_bullish = zero, bt_bearish = zero, bt_neutral = zero \<rparr> verified,
        avgConfidence =
          (if length history > 0
           then foldl (\<lambda>sum p. sum + confidence p) 0 history / real (length history) * 100
           else 0) \<rparr>)"

subsection \<open>The language-model override\<close>

text \<open>
  What \<open>JSON.parse\<close> made of the model's reply: an object in which any field of the
  requested schema may be missing. A reply that parses to something other than an object
  spreads to no field at all. Keys outside the requested schema are not modelled.
\<close>

record ai_json =
  ai_prediction :: "string option"
  ai_confidence :: "real option"
  ai_riskLevel :: "string option"
  ai_sentimentMomentum :: "string option"
  ai_keyFactors :: "string list option"

text \<open>
  The reply of the completion service, as far as the handler tells replies apart:
  \<^item> \<open>fetch\<close> rejects;
  \<^item> a response with a status; then either reading it fails (\<open>response.json()\<close> rejects, or
    \<open>data.choices[0].message.content\<close> throws), or the content does not parse
    (\<open>content.match\<close> or \<open>JSON.parse\<close> throws), or it parses.
\<close>

datatype ai_body = BodyUnreadable | ContentUnparseable | ContentParsed ai_json

datatype ai_response = FetchRejected | Response nat ai_body

text \<open>\<open>response.ok\<close>: a status from 200 to 299.\<close>

definition response_ok :: "nat \<Rightarrow> bool" where
  "response_ok status = (200 \<le> status \<and> status \<le> 299)"

text \<open>
  The value of the handler's variable \<open>prediction\<close>: the object of the scorer, or
  \<open>{ ...JSON.parse(...), source: 'ai' }\<close>.
\<close>

datatype prediction_value = Algorithmic algorithmic_forecast | FromAI ai_json

text \<open>\<open>prediction.source || 'algorithmic'\<close>\<close>

definition source_of :: "prediction_value \<Rightarrow> string" where
  "source_of v =
     (case v of
        Algorithmic f \<Rightarrow> (if source f = [] then ''algorithmic'' else source f)
      | FromAI j \<Rightarrow> ''ai'')"

definition choosePrediction ::
  "bool \<Rightarrow> ai_response \<Rightarrow> string \<Rightarrow> real \<Rightarrow> real \<Rightarrow> nat \<Rightarrow> nat \<Rightarrow> nat \<Rightarrow> nat \<Rightarrow> prediction_value" where
  "choosePrediction haveKey reply symb avgSentiment trend posCount negCount neuCount totalArticles =
     (let algorithmic = Algorithmic
            (generateAlgorithmicPrediction symb avgSentiment trend posCount negCount neuCount totalArticles)
      in
      if \<not> haveKey then algorithmic
      else
        case reply of
          FetchRejected \<Rightarrow> algorithmic
        | Response status body \<Rightarrow>
            if \<not> response_ok status then algorithmic
            else
              (case body of
                 BodyUnreadable \<Rightarrow> algorithmic
               | ContentUnparseable \<Rightarrow> algorithmic
               | ContentParsed j \<Rightarrow> FromAI j))"

subsection \<open>The handler\<close>

record quote =
  q_price :: real
  q_change :: real

record historical_data =
  h_totalArticles :: nat
  h_avgSentiment :: real
  h_posCount :: nat
  h_negCount :: nat
  h_neuCount :: nat
  h_trend :: real

record predict_result =
  r_symbol :: string
  r_prediction :: prediction_value
  historicalData :: historical_data
  r_livePrice :: "quote option"
  accuracyStats :: accuracy_stats
  predictionHistory :: "prediction_record list"
  generatedAt :: int
  r_source :: string

datatype predict_response =
    Preflight
  | BadRequest string
  | ServerError string
  | Ok predict_result

text \<open>
  The request: its method is \<open>OPTIONS\<close> or not, and its body is unreadable
  (\<open>req.json()\<close> or the destructuring throws; \<open>Inl\<close> carries the message of the
  exception) or carries \<open>symbol\<close> and \<open>includeHistory\<close>.
\<close>

record predict_body =
  b_symbol :: "string option"
  b_includeHistory :: bool

record predict_request =
  is_options :: bool
  req_body :: "string + predict_body"

text \<open>
  The world the handler runs in: the quote \<open>fetchLivePrice\<close> returns, the result of the
  articles query (an error or rows), the rows of the history query, whether
  \<open>OPENAI_API_KEY\<close> is set, the reply of the completion service, the error message of the
  insert if it fails, and the clock.
\<close>

record predict_env =
  env_livePrice :: "quote option"
  env_articles :: "string + article list"
  env_historyData :: "prediction_record list"
  env_haveOpenAIKey :: bool
  env_aiReply :: ai_response
  env_insertError :: "string option"
  env_clock :: int

text \<open>
  The handler returns its response; the second component is the final value of its local
  variable \<open>dbError\<close>, which the source assigns in the \<open>catch\<close> of the insert and reads
  nowhere.
\<close>

definition predict_serve :: "predict_env \<Rightarrow> predict_request \<Rightarrow> predict_response \<times> string option" where
  "predict_serve env req =
     (if is_options req then (Preflight, None)
      else
        case req_body req of
          Inl message \<Rightarrow> (ServerError message, None)
        | Inr b \<Rightarrow>
            (case b_symbol b of
               None \<Rightarrow> (BadRequest ''Symbol is required'', None)
             | Some symb \<Rightarrow>
                 if symb = [] then (BadRequest ''Symbol is required'', None)
                 else
                   (case env_articles env of
                      Inl fetchError \<Rightarrow> (ServerError fetchError, None)
                    | Inr sentimentData \<Rightarrow>
                        let avg = meanCompound sentimentData;
                            pos = countLabel ''positive'' sentimentData;
                            neg = countLabel ''negative'' sentimentData;
                            neu = countLabel ''neutral'' sentimentData;
                            tr = sentimentTrend (env_clock env) sentimentData;
                            stats = calculateAccuracyStats (env_historyData env);
                            pv = choosePrediction (env_haveOpenAIKey env) (env_aiReply env)
                                   symb avg tr pos neg neu (length sentimentData);
                            dbError = env_insertError env;
                            result =
                              \<lparr> r_symbol = symb,
                                r_prediction = pv,
                                historicalData =
                                  \<lparr> h_totalArticles = length sentimentData, h_avgSentiment = avg,
                                    h_posCount = pos, h_negCount = neg, h_neuCount = neu, h_trend = tr \<rparr>,
                                r_livePrice = env_livePrice env,
                                accuracyStats = stats,
                                predictionHistory =
                                  (if b_includeHistory b then take 20 (env_historyData env) else []),
                                generatedAt = env_clock env,
                                r_source = source_of pv \<rparr>
                        in (Ok result, dbError))))"

section \<open>The verification batches\<close>

text \<open>
  The table is the list of its rows; \<open>id\<close> is its primary key, so the theorems below
  assume the ids of a table distinct. Every statement the handlers send is taken to
  reach the database.
\<close>

type_synonym store = "prediction_record list"

text \<open>\<open>supabase.from('prediction_history').update(...).eq('id', i)\<close>\<close>

definition update_by_id :: "string \<Rightarrow> (prediction_record \<Rightarrow> prediction_record) \<Rightarrow> store \<Rightarrow> store" where
  "update_by_id i f rows = map (\<lambda>r. if id_col r = i then f r else r) rows"

text \<open>The columns an update with a verification object sets.\<close>

definition apply_verification :: "verification \<Rightarrow> prediction_record \<Rightarrow> prediction_record" where
  "apply_verification v r =
     r\<lparr> actual_outcome := Some (v_actual_outcome v),
        price_at_verification := Some (v_price_at_verification v),
        price_change_percent := Some (v_price_change_percent v),
        was_accurate := Some (v_was_accurate v),
        verified_at := Some (v_verified_at v) \<rparr>"

text \<open>
  \<open>d.setHours(d.getHours() - n)\<close> on the current time, in milliseconds, for a clock in
  UTC.
\<close>

definition hoursAgo :: "int \<Rightarrow> int \<Rightarrow> int" where
  "hoursAgo now n = now - n * 3600000"

text \<open>
  \<open>.order('created_at', { ascending: false })\<close>: descending, and Postgres puts nulls
  first in a descending order. Rows with equal keys keep the order of the table here;
  Postgres leaves their order open.
\<close>

definition orderCreatedDesc :: "prediction_record list \<Rightarrow> prediction_record list" where
  "orderCreatedDesc rows = sort_key (\<lambda>r. map_option uminus (created_at r)) rows"

text \<open>
  The world a batch runs in: the price \<open>fetchLivePrice\<close> returns for a symbol (\<open>None\<close>
  when every provider fails), the clock, and the error of the selection query if it
  fails.
\<close>

record batch_env =
  quotes :: "string \<Rightarrow> real option"
  batch_now :: int
  selectError :: "string option"

subsection \<open>The scheduled verification job\<close>

text \<open>
  The request of the job: an \<open>OPTIONS\<close> preflight or not, and \<open>body.force === true\<close>
  (false when the body cannot be read).
\<close>

record verify_request =
  v_is_options :: bool
  forceVerify :: bool

text \<open>
  The selection: \<open>.is('was_accurate', null)\<close>, ordered, \<open>.limit(100)\<close>, and unless
  forced \<open>.or('created_at.lt.<twelveHoursAgo>,created_at.is.null')\<close>.
\<close>

definition selectPending :: "bool \<Rightarrow> int \<Rightarrow> store \<Rightarrow> prediction_record list" where
  "selectPending force now rows =
     take 100 (orderCreatedDesc
       (filter (\<lambda>r. was_accurate r = None
                    \<and> (force \<or> (case created_at r of
                                   None \<Rightarrow> True
                                 | Some t \<Rightarrow> t < hoursAgo now 12)))
               rows))"

text \<open>
  The \<open>reduce\<close> that builds \<open>symbolGroups\<close> starts from the plain object \<open>{}\<close>, which
  inherits the properties of \<open>Object.prototype\<close>. For a symbol that is the name of one of
  them \<open>groups[pred.symbol]\<close> is that inherited function or object, which is truthy and
  has no \<open>push\<close>: the call throws a \<open>TypeError\<close>. These are the names the language
  standard gives \<open>Object.prototype\<close> (a runtime that removes the \<open>__proto__\<close> accessor
  does not throw on that one).
\<close>

definition inheritedKeys :: "string list" where
  "inheritedKeys =
     [''constructor'', ''__defineGetter__'', ''__defineSetter__'', ''hasOwnProperty'',
      ''__lookupGetter__'', ''__lookupSetter__'', ''isPrototypeOf'', ''propertyIsEnumerable'',
      ''toString'', ''valueOf'', ''__proto__'', ''toLocaleString'']"

text \<open>
  One step of the \<open>reduce\<close> on an own key: a symbol seen before gets the record pushed
  onto its array, a new symbol gets a new entry. \<open>Object.entries\<close> lists the entries in
  insertion order (a symbol that reads as a non-negative integer would come first).
\<close>

fun group_insert ::
  "prediction_record \<Rightarrow> (string \<times> prediction_record list) list \<Rightarrow> (string \<times> prediction_record list) list" where
  "group_insert p [] = [(symbol p, [p])]"
| "group_insert p ((s, ps) # groups) =
     (if s = symbol p then (s, ps @ [p]) # groups else (s, ps) # group_insert p groups)"

text \<open>The \<open>reduce\<close> from an accumulator: \<open>None\<close> when a step throws.\<close>

fun reduceGroups ::
  "(string \<times> prediction_record list) list \<Rightarrow> prediction_record list
   \<Rightarrow> (string \<times> prediction_record list) list option" where
  "reduceGroups groups [] = Some groups"
| "reduceGroups groups (pred # preds) =
     (if symbol pred \<in> set inheritedKeys then None
      else reduceGroups (group_insert pred groups) preds)"

definition symbolGroups :: "prediction_record list \<Rightarrow> (string \<times> prediction_record list) list option" where
  "symbolGroups predictions = reduceGroups [] predictions"

text \<open>
  The body of the inner loop for one selected record: the repair of a null \<open>created_at\<close>
  (an update of the row and of the record in hand), then \<open>verifyPrediction\<close> and, when
  it returns an object, the update and \<open>verifiedCount++\<close>.
\<close>

definition verifyOne :: "int \<Rightarrow> real \<Rightarrow> store \<times> nat \<Rightarrow> prediction_record \<Rightarrow> store \<times> nat" where
  "verifyOne now livePrice st pred =
     (let (rows, verifiedCount) = st;
          (rows1, pred1) =
            (if created_at pred = None
             then (update_by_id (id_col pred) (\<lambda>r. r\<lparr>created_at := Some now\<rparr>) rows,
                   pred\<lparr>created_at := Some now\<rparr>)
             else (rows, pred))
      in
      case verifyPrediction now pred1 livePrice of
        None \<Rightarrow> (rows1, verifiedCount)
      | Some v \<Rightarrow> (update_by_id (id_col pred) (apply_verification v) rows1, verifiedCount + 1))"

text \<open>
  The body of the outer loop for one group: without a price the whole group is counted
  as errors and left alone.
\<close>

definition verifyGroup ::
  "batch_env \<Rightarrow> store \<times> nat \<times> nat \<Rightarrow> string \<times> prediction_record list \<Rightarrow> store \<times> nat \<times> nat" where
  "verifyGroup env st g =
     (let (rows, verifiedCount, errorCount) = st;
          (symb, predictions) = g
      in
      case quotes env symb of
        None \<Rightarrow> (rows, verifiedCount, errorCount + length predictions)
      | Some livePrice \<Rightarrow>
          let (rows', verifiedCount') =
                foldl (verifyOne (batch_now env) livePrice) (rows, verifiedCount) predictions
          in (rows', verifiedCount', errorCount))"

datatype verify_response =
    VerifyPreflight
  | VerifyFailed string
  | NothingToVerify
  | VerifySummary nat nat nat

text \<open>
  The handler: the new table and the response (\<open>VerifySummary verified errors total\<close>).
  A \<open>TypeError\<close> of the \<open>reduce\<close> reaches the outer \<open>catch\<close>, before any update is
  sent: the table is as it was and the response is the failure with the message of the
  exception.
\<close>

definition verify_serve :: "batch_env \<Rightarrow> verify_request \<Rightarrow> store \<Rightarrow> store \<times> verify_response" where
  "verify_serve env req rows =
     (if v_is_options req then (rows, VerifyPreflight)
      else
        case selectError env of
          Some e \<Rightarrow> (rows, VerifyFailed e)
        | None \<Rightarrow>
            let predictions = selectPending (forceVerify req) (batch_now env) rows in
            if length predictions = 0 then (rows, NothingToVerify)
            else
              case symbolGroups predictions of
                None \<Rightarrow> (rows, VerifyFailed ''groups[pred.symbol].push is not a function'')
              | Some groups \<Rightarrow>
                  let (rows', verifiedCount, errorCount) =
                        foldl (verifyGroup env) (rows, 0, 0) groups
                  in (rows', VerifySummary verifiedCount errorCount (length predictions)))"

subsection \<open>The handler of \<open>batch-verify\<close>\<close>

text \<open>
  The selection: \<open>.is('was_accurate', null).lt('created_at', twoHoursAgo)\<close>, ordered,
  \<open>.limit(50)\<close>. A null \<open>created_at\<close> is not less than anything.
\<close>

definition batchSelect :: "int \<Rightarrow> store \<Rightarrow> prediction_record list" where
  "batchSelect now rows =
     take 50 (orderCreatedDesc
       (filter (\<lambda>r. was_accurate r = None
                    \<and> (case created_at r of
                          None \<Rightarrow> False
                        | Some t \<Rightarrow> t < hoursAgo now 2))
               rows))"

text \<open>\<open>[...new Set(predictions.map(p => p.symbol))]\<close>: the symbols in order of first occurrence.\<close>

definition uniqueSymbols :: "prediction_record list \<Rightarrow> string list" where
  "uniqueSymbols predictions =
     foldl (\<lambda>seen s. if s \<in> set seen then seen else seen @ [s]) [] (map symbol predictions)"

definition batchOne :: "int \<Rightarrow> real \<Rightarrow> store \<times> nat \<Rightarrow> prediction_record \<Rightarrow> store \<times> nat" where
  "batchOne now livePrice st pred =
     (let (rows, verifiedCount) = st in
      case batchVerify_one now pred livePrice of
        None \<Rightarrow> (rows, verifiedCount)
      | Some v \<Rightarrow> (update_by_id (id_col pred) (apply_verification v) rows, verifiedCount + 1))"

definition batchSymbol ::
  "batch_env \<Rightarrow> prediction_record list \<Rightarrow> store \<times> nat \<Rightarrow> string \<Rightarrow> store \<times> nat" where
  "batchSymbol env predictions st symb =
     (case quotes env symb of
        None \<Rightarrow> st
      | Some livePrice \<Rightarrow>
          let symbolPredictions = filter (\<lambda>p. symbol p = symb) predictions
          in foldl (batchOne (batch_now env) livePrice) st symbolPredictions)"

datatype batch_response =
    BatchPreflight
  | BatchFailed string
  | NothingPending
  | BatchSummary nat nat

text \<open>The handler: the new table and the response (\<open>BatchSummary verified total\<close>).\<close>

definition batchVerify_serve :: "batch_env \<Rightarrow> bool \<Rightarrow> store \<Rightarrow> store \<times> batch_response" where
  "batchVerify_serve env isOptions rows =
     (if isOptions then (rows, BatchPreflight)
      else
        case selectError env of
          Some e \<Rightarrow> (rows, BatchFailed e)
        | None \<Rightarrow>
            let predictions = batchSelect (batch_now env) rows in
            if length predictions = 0 then (rows, NothingPending)
            else
              let (rows', verifiedCount) =
                    foldl (batchSymbol env predictions) (rows, 0) (uniqueSymbols predictions)
              in (rows', BatchSummary verifiedCount (length predictions)))"

subsection \<open>Sequences of batch runs\<close>

datatype batch_run =
    ScheduledRun batch_env verify_request
  | BatchVerifyRun batch_env bool

fun run_batch :: "store \<Rightarrow> batch_run \<Rightarrow> store" where
  "run_batch rows (ScheduledRun env req) = fst (verify_serve env req rows)"
| "run_batch rows (BatchVerifyRun env isOptions) = fst (batchVerify_serve env isOptions rows)"

definition run_batches :: "batch_run list \<Rightarrow> store \<Rightarrow> store" where
  "run_batches runs rows = foldl run_batch rows runs"

text \<open>The row of a table with a given id.\<close>

definition row_of :: "store \<Rightarrow> string \<Rightarrow> prediction_record option" where
  "row_of rows i = find (\<lambda>r. id_col r = i) rows"

subsection \<open>The net effect of a batch on a row\<close>

text \<open>
  For the proofs: a sequence of updates by id, one per record of a list, as a batch sends
  them; \<open>g p\<close> is what the update for record \<open>p\<close> does to the row it hits.
\<close>

definition applyAll ::
  "(prediction_record \<Rightarrow> prediction_record \<Rightarrow> prediction_record) \<Rightarrow> prediction_record list \<Rightarrow> store \<Rightarrow> store" where
  "applyAll g ps rows = foldl (\<lambda>st p. update_by_id (id_col p) (g p) st) rows ps"

text \<open>
  What one pass of the inner loop of the scheduled job does to the row of the record in
  hand: the repair of \<open>created_at\<close> and the verification update, composed.
\<close>

definition rowUpdate :: "int \<Rightarrow> real \<Rightarrow> prediction_record \<Rightarrow> prediction_record \<Rightarrow> prediction_record" where
  "rowUpdate now livePrice pred x =
     (let x1 = (if created_at pred = None then x\<lparr>created_at := Some now\<rparr> else x) in
      case verifyPrediction now pred livePrice of
        None \<Rightarrow> x1
      | Some v \<Rightarrow> apply_verification v x1)"

text \<open>The same for the inner loop of \<open>batch-verify\<close>.\<close>

definition batchRow :: "int \<Rightarrow> real \<Rightarrow> prediction_record \<Rightarrow> prediction_record \<Rightarrow> prediction_record" where
  "batchRow now livePrice pred x =
     (case batchVerify_one now pred livePrice of
        None \<Rightarrow> x
      | Some v \<Rightarrow> apply_verification v x)"

text \<open>
  The same with the price looked up: nothing happens to the row when no price is to be
  had for the symbol of the record.
\<close>

definition groupStep :: "batch_env \<Rightarrow> prediction_record \<Rightarrow> prediction_record \<Rightarrow> prediction_record" where
  "groupStep env pred x =
     (case quotes env (symbol pred) of
        None \<Rightarrow> x
      | Some livePrice \<Rightarrow> rowUpdate (batch_now env) livePrice pred x)"

definition batchStep :: "batch_env \<Rightarrow> prediction_record \<Rightarrow> prediction_record \<Rightarrow> prediction_record" where
  "batchStep env pred x =
     (case quotes env (symbol pred) of
        None \<Rightarrow> x
      | Some livePrice \<Rightarrow> batchRow (batch_now env) livePrice pred x)"

text \<open>The records of all groups, in processing order.\<close>

definition members :: "(string \<times> prediction_record list) list \<Rightarrow> prediction_record list" where
  "members groups = concat (map snd groups)"

text \<open>Every record sits in the group of its own symbol.\<close>

definition keyed :: "(string \<times> prediction_record list) list \<Rightarrow> bool" where
  "keyed groups = (\<forall>(s, ps) \<in> set groups. \<forall>p \<in> set ps. symbol p = s)"

section \<open>Properties of the outcome classifier\<close>

text \<open>
  Claim C1. At each verification call site the realised outcome is bullish exactly when the
  percent change exceeds the call site's band (2 in the scheduled job, 1.5 in the inline
  loops), bearish exactly when it is below the negated band, and neutral exactly in
  between; the two directional conditions exclude each other, so every change gets one
  outcome.
\<close>

theorem outcome_partition:
  "(verifyPrediction_outcome p = bullish) = (p > 2)
   \<and> (verifyPrediction_outcome p = bearish) = (p < - 2)
   \<and> (verifyPrediction_outcome p = neutral) = (\<not> p > 2 \<and> \<not> p < - 2)
   \<and> \<not> (p > 2 \<and> p < - 2)
   \<and> (batchVerify_outcome p = bullish) = (p > 1.5)
   \<and> (batchVerify_outcome p = bearish) = (p < - 1.5)
   \<and> (batchVerify_outcome p = neutral) = (\<not> p > 1.5 \<and> \<not> p < - 1.5)
   \<and> \<not> (p > 1.5 \<and> p < - 1.5)"
  by (simp add: verifyPrediction_outcome_def batchVerify_outcome_def)

section \<open>The worked example of the verification rules\<close>

text \<open>
  Claim C3, as the spec words it, fails on the inline loops: for a stored price of 100 and
  a current price of 100.8 the handler of \<open>batch-verify\<close> marks a bullish record
  inaccurate, its leniency test being \<open>priceChange > 0.8\<close>.
\<close>

theorem batchVerify_example_bullish_inaccurate:
  "map_option v_was_accurate
     (batchVerify_one 0 (pending_record ''p1'' ''AAPL'' bullish 0.7 (Some 0) (Some 100)) 100.8)
   = Some False"
  by (simp add: batchVerify_one_def pending_record_def priceChange_def
      batchVerify_accurate_def batchVerify_outcome_def)

text \<open>
  Claim C3, amended. For a stored price of 100 and a current price of 100.8 the computed
  percent change lies just below 0.8 (the exact quotient is 0.8, the source's double
  arithmetic gives 0.7999999999999973). For every change above 0.5 and at most 0.8 the
  outcome is neutral at every call site; \<open>verifyPrediction\<close> (leniency test
  \<open>priceChange > 0.5\<close>) finds a bullish prediction accurate and a bearish one
  inaccurate; the inline loops (leniency test \<open>priceChange > 0.8\<close>) find both a bullish
  and a bearish prediction inaccurate.
\<close>

theorem example_verdicts_up_to_0_8:
  assumes "0.5 < pc" and "pc \<le> 0.8"
  shows "verifyPrediction_outcome pc = neutral
     \<and> verifyPrediction_accurate bullish pc
     \<and> \<not> verifyPrediction_accurate bearish pc
     \<and> batchVerify_outcome pc = neutral
     \<and> \<not> batchVerify_accurate bullish pc
     \<and> \<not> batchVerify_accurate bearish pc"
  using assms
  by (simp add: verifyPrediction_accurate_def verifyPrediction_outcome_def
      batchVerify_accurate_def batchVerify_outcome_def)

text \<open>
  The instance at the double the source computes for 100 and 100.8, written as the
  fraction it stands for.
\<close>

theorem example_verdicts_up_to_0_8_witness:
  "(0.5::real) < 7205759403792769 / 9007199254740992
   \<and> (7205759403792769 / 9007199254740992 :: real) \<le> 0.8
   \<and> verifyPrediction_outcome (7205759403792769 / 9007199254740992) = neutral
   \<and> verifyPrediction_accurate bullish (7205759403792769 / 9007199254740992)
   \<and> \<not> verifyPrediction_accurate bearish (7205759403792769 / 9007199254740992)
   \<and> batchVerify_outcome (7205759403792769 / 9007199254740992) = neutral
   \<and> \<not> batchVerify_accurate bullish (7205759403792769 / 9007199254740992)
   \<and> \<not> batchVerify_accurate bearish (7205759403792769 / 9007199254740992)"
proof -
  have lo: "(0.5::real) < 7205759403792769 / 9007199254740992" by simp
  have hi: "(7205759403792769 / 9007199254740992 :: real) \<le> 0.8" by simp
  show ?thesis
    using example_verdicts_up_to_0_8 [OF lo hi] lo hi by simp
qed

section \<open>Properties of the scorers\<close>

lemma algorithmic_direction:
  "prediction' (generateAlgorithmicPrediction symb avgSentiment trend posCount negCount neuCount totalArticles)
     = fst (algorithmic_score avgSentiment trend)"
  by (simp add: generateAlgorithmicPrediction_def split: prod.split)

text \<open>
  Claim C10. The direction returned by \<open>generateAlgorithmicPrediction\<close> is decided by
  \<open>avgSentiment\<close> alone: bullish exactly when it exceeds 0.05, bearish exactly when it is
  below -0.05, and neutral exactly on the closed interval between, whatever the trend and
  the article counts.
\<close>

theorem algorithmic_direction_follows_sentiment:
  "(prediction' (generateAlgorithmicPrediction symb avgSentiment trend posCount negCount neuCount totalArticles) = bullish)
     = (avgSentiment > 0.05)
   \<and> (prediction' (generateAlgorithmicPrediction symb avgSentiment trend posCount negCount neuCount totalArticles) = bearish)
     = (avgSentiment < - 0.05)
   \<and> (prediction' (generateAlgorithmicPrediction symb avgSentiment trend posCount negCount neuCount totalArticles) = neutral)
     = (- 0.05 \<le> avgSentiment \<and> avgSentiment \<le> 0.05)"
  unfolding algorithmic_direction
  by (auto simp add: algorithmic_score_def Let_def)

lemma generatePrediction_direction:
  "prediction' (generatePrediction symb avgSentiment trend pc) =
     (if combinedScore avgSentiment trend pc > 0.8 then bullish
      else if combinedScore avgSentiment trend pc < - 0.8 then bearish
      else neutral)"
  by (simp add: generatePrediction_def Let_def)

text \<open>
  Claim C8, as the spec words it, fails: the third term of the score is 0.3 times the
  percent change itself, not 0.3 times a hundredth of it. For a quote that rose 3 percent
  and no articles the handler of \<open>auto-update\<close> predicts bullish, where the spec's
  formula (0 + 0.5 * 0.03 + 0.3 * 0.03 = 0.024) stays far below the bullish threshold 0.8.
\<close>

theorem combinedScore_not_hundredth:
  "combinedScore 0 (3 / 100) 3 \<noteq> 0 + 0.5 * (3 / 100) + 0.3 * (3 / 100)
   \<and> prediction' (autoUpdate_prediction ''AAPL'' [] 3) = bullish
   \<and> \<not> (0 + 0.5 * (3 / 100) + 0.3 * (3 / 100) > (0.8::real))"
  by (simp add: autoUpdate_prediction_def autoUpdate_avgSentiment_def
      generatePrediction_direction combinedScore_def)

text \<open>
  Claim C8, amended. In the lightweight path the score that drives the classification is
  \<open>avgSentiment + 0.5 * trend + 0.3 * priceChangePercent\<close>, the percent change entering
  undivided; at the call site \<open>trend\<close> is a hundredth of the quote's percent change, so the
  score there is \<open>avgSentiment + 0.005 * change + 0.3 * change\<close>.
\<close>

theorem lightweight_score:
  "combinedScore avgSentiment trend pc = avgSentiment + 0.5 * trend + 0.3 * pc
   \<and> prediction' (generatePrediction symb avgSentiment trend pc) =
       (if avgSentiment + 0.5 * trend + 0.3 * pc > 0.8 then bullish
        else if avgSentiment + 0.5 * trend + 0.3 * pc < - 0.8 then bearish
        else neutral)
   \<and> prediction' (autoUpdate_prediction symb articles change) =
       (let score = autoUpdate_avgSentiment articles + 0.5 * (change / 100) + 0.3 * change
        in if score > 0.8 then bullish else if score < - 0.8 then bearish else neutral)"
  by (simp add: autoUpdate_prediction_def generatePrediction_direction combinedScore_def
      Let_def mult.commute)

section \<open>Properties of the prediction function\<close>

lemma foldl_add_sum_list:
  "foldl (\<lambda>sum a. sum + f a) (acc::real) xs = acc + sum_list (map f xs)"
  by (induction xs arbitrary: acc) simp_all

lemma meanCompound_eq:
  "meanCompound xs =
     (if xs = [] then 0 else sum_list (map sentiment_compound xs) / real (length xs))"
  by (simp add: meanCompound_def foldl_add_sum_list)

text \<open>
  Claim C4, as the spec words it, fails: with one article of score 0.5 published a day ago
  and nothing in the window from 14 to 7 days ago, the older window is empty and the trend
  is 0.5, not 0.
\<close>

theorem trend_nonzero_with_empty_window:
  "olderArticles 1209600000
     [\<lparr> sentiment_compound = 0.5, sentiment_label = ''positive'',
        published = 1123200000, title = ''t'' \<rparr>] = []
   \<and> sentimentTrend 1209600000
     [\<lparr> sentiment_compound = 0.5, sentiment_label = ''positive'',
        published = 1123200000, title = ''t'' \<rparr>] = 0.5"
  by (simp add: sentimentTrend_def meanCompound_eq recentArticles_def olderArticles_def
      daysAgo_def)

text \<open>
  Claim C4, amended. The trend is the mean compound score of the articles published in
  the last 7 days minus the mean compound score of the articles published from 14 days ago
  (inclusive) up to 7 days ago (exclusive), where the mean of an empty window counts as 0:
  the trend is 0 when both windows are empty, the recent mean when only the older window
  is empty, and the negated older mean when only the recent window is empty.
\<close>

theorem trend_is_difference_of_window_means:
  "sentimentTrend now sentimentData =
     (let recent = filter (\<lambda>a. now - 7 * 86400000 \<le> published a) sentimentData;
          older = filter (\<lambda>a. now - 14 * 86400000 \<le> published a
                               \<and> published a < now - 7 * 86400000) sentimentData;
          recentMean = sum_list (map sentiment_compound recent) / real (length recent);
          olderMean = sum_list (map sentiment_compound older) / real (length older)
      in if recent = [] \<and> older = [] then 0
         else if older = [] then recentMean
         else if recent = [] then - olderMean
         else recentMean - olderMean)"
  by (simp add: sentimentTrend_def meanCompound_eq recentArticles_def olderArticles_def
      daysAgo_def Let_def)

text \<open>
  Claim C7, as the spec words it, fails in its second half: for a single record of
  confidence 0.5 the statistic is 50, a hundred times the mean.
\<close>

theorem avgConfidence_is_percentage:
  "avgConfidence (calculateAccuracyStats
     [pending_record ''p1'' ''AAPL'' bullish 0.5 (Some 0) (Some 100)]) = 50
   \<and> sum_list (map confidence [pending_record ''p1'' ''AAPL'' bullish 0.5 (Some 0) (Some 100)])
       / real (length [pending_record ''p1'' ''AAPL'' bullish 0.5 (Some 0) (Some 100)]) = 0.5"
  by (simp add: calculateAccuracyStats_def pending_record_def Let_def)

text \<open>
  Claim C7, amended. On the empty collection \<open>calculateAccuracyStats\<close> returns accuracy
  rate 0 with every total 0; and for every collection the average-confidence statistic is
  100 times the mean confidence over all records, verified and pending alike (0 on the
  empty collection).
\<close>

theorem accuracy_stats_empty_and_confidence:
  "calculateAccuracyStats [] =
     \<lparr> totalPredictions = 0, verifiedPredictions = 0, accuratePredictions = 0,
       accuracyRate = 0,
       byType = \<lparr> bt_bullish = \<lparr> t_total = 0, t_correct = 0 \<rparr>,
                  bt_bearish = \<lparr> t_total = 0, t_correct = 0 \<rparr>,
                  bt_neutral = \<lparr> t_total = 0, t_correct = 0 \<rparr> \<rparr>,
       avgConfidence = 0 \<rparr>
   \<and> avgConfidence (calculateAccuracyStats history) =
       (if history = [] then 0
        else 100 * (sum_list (map confidence history) / real (length history)))"
  by (simp add: calculateAccuracyStats_def foldl_add_sum_list Let_def)

text \<open>
  Claim C5 against the code. Whatever the insert reports, the response of the handler is
  the same: the message of a failed insert ends in the local variable \<open>dbError\<close> and in
  the log, and no field of the payload carries it.
\<close>

theorem persistence_error_not_in_response:
  "fst (predict_serve (env\<lparr>env_insertError := Some message\<rparr>) req)
     = fst (predict_serve (env\<lparr>env_insertError := None\<rparr>) req)"
  by (simp add: predict_serve_def Let_def split: sum.split option.split)

text \<open>
  Claim C6 against the code. A successful response whose content parses to an object
  with none of the required fields is not treated as a failure: the handler answers with
  that empty object as the forecast, source \<open>ai\<close>, where the claim asks for the
  forecast of the deterministic scorer, source \<open>algorithmic\<close>.
\<close>

theorem override_missing_fields_accepted:
  "fst (predict_serve
     \<lparr> env_livePrice = None, env_articles = Inr [], env_historyData = [],
       env_haveOpenAIKey = True,
       env_aiReply = Response 200 (ContentParsed
         \<lparr> ai_prediction = None, ai_confidence = None, ai_riskLevel = None,
           ai_sentimentMomentum = None, ai_keyFactors = None \<rparr>),
       env_insertError = None, env_clock = 0 \<rparr>
     \<lparr> is_options = False,
       req_body = Inr \<lparr> b_symbol = Some ''AAPL'', b_includeHistory = False \<rparr> \<rparr>)
   = Ok \<lparr> r_symbol = ''AAPL'',
          r_prediction = FromAI
            \<lparr> ai_prediction = None, ai_confidence = None, ai_riskLevel = None,
              ai_sentimentMomentum = None, ai_keyFactors = None \<rparr>,
          historicalData =
            \<lparr> h_totalArticles = 0, h_avgSentiment = 0, h_posCount = 0, h_negCount = 0,
              h_neuCount = 0, h_trend = 0 \<rparr>,
          r_livePrice = None,
          accuracyStats = calculateAccuracyStats [],
          predictionHistory = [],
          generatedAt = 0,
          r_source = ''ai'' \<rparr>"
  by (simp add: predict_serve_def choosePrediction_def response_ok_def source_of_def
      meanCompound_def countLabel_def sentimentTrend_def recentArticles_def
      olderArticles_def Let_def)

text \<open>
  The branches of the override, for reference. With a key configured and a request the
  handler accepts, the handler answers with a payload whatever the completion service
  does. The payload carries the deterministic scorer's forecast, source
  \<open>algorithmic\<close>, when the call is rejected, when the response is not a success, when the
  response cannot be read, and when its content does not parse as JSON; the handler
  looks at nothing else, so content that parses passes through.
\<close>

theorem override_fallback:
  assumes "\<not> is_options req"
    and "req_body req = Inr b"
    and "b_symbol b = Some symb"
    and "symb \<noteq> []"
    and "env_articles env = Inr sentimentData"
    and "env_haveOpenAIKey env"
  shows "\<exists>res. fst (predict_serve env req) = Ok res
     \<and> r_prediction res =
        (let scored = Algorithmic (generateAlgorithmicPrediction symb
                 (meanCompound sentimentData)
                 (sentimentTrend (env_clock env) sentimentData)
                 (countLabel ''positive'' sentimentData)
                 (countLabel ''negative'' sentimentData)
                 (countLabel ''neutral'' sentimentData)
                 (length sentimentData))
         in case env_aiReply env of
              FetchRejected \<Rightarrow> scored
            | Response status BodyUnreadable \<Rightarrow> scored
            | Response status ContentUnparseable \<Rightarrow> scored
            | Response status (ContentParsed j) \<Rightarrow>
                if 200 \<le> status \<and> status \<le> 299 then FromAI j else scored)
     \<and> r_source res =
        (case r_prediction res of Algorithmic f \<Rightarrow> ''algorithmic'' | FromAI j \<Rightarrow> ''ai'')"
  using assms
  by (simp add: predict_serve_def choosePrediction_def response_ok_def source_of_def
      generateAlgorithmicPrediction_def Let_def
      split: ai_response.split ai_body.split prod.split)

theorem override_fallback_witness:
  "\<exists>res. fst (predict_serve
       \<lparr> env_livePrice = None, env_articles = Inr [], env_historyData = [],
         env_haveOpenAIKey = True, env_aiReply = Response 503 ContentUnparseable,
         env_insertError = None, env_clock = 0 \<rparr>
       \<lparr> is_options = False,
         req_body = Inr \<lparr> b_symbol = Some ''AAPL'', b_includeHistory = False \<rparr> \<rparr>) = Ok res
     \<and> r_prediction res = Algorithmic (generateAlgorithmicPrediction ''AAPL'' 0 0 0 0 0 0)
     \<and> r_source res = ''algorithmic''"
  using override_fallback
    [of "\<lparr> is_options = False,
           req_body = Inr \<lparr> b_symbol = Some ''AAPL'', b_includeHistory = False \<rparr> \<rparr>"
        "\<lparr> b_symbol = Some ''AAPL'', b_includeHistory = False \<rparr>"
        "''AAPL''"
        "\<lparr> env_livePrice = None, env_articles = Inr [], env_historyData = [],
           env_haveOpenAIKey = True, env_aiReply = Response 503 ContentUnparseable,
           env_insertError = None, env_clock = 0 \<rparr>"
        "[]"]
  by (auto simp add: meanCompound_def countLabel_def sentimentTrend_def recentArticles_def
      olderArticles_def Let_def)

section \<open>Properties of the verification batches\<close>

lemma applyAll_Nil [simp]: "applyAll g [] rows = rows"
  by (simp add: applyAll_def)

lemma applyAll_Cons [simp]:
  "applyAll g (p # ps) rows = applyAll g ps (update_by_id (id_col p) (g p) rows)"
  by (simp add: applyAll_def)

lemma applyAll_append [simp]:
  "applyAll g (ps @ qs) rows = applyAll g qs (applyAll g ps rows)"
  by (simp add: applyAll_def)

lemma update_by_id_same [simp]: "update_by_id i (\<lambda>x. x) rows = rows"
  by (simp add: update_by_id_def)

lemma update_by_id_ids:
  "(\<And>x. id_col (f x) = id_col x) \<Longrightarrow> map id_col (update_by_id i f rows) = map id_col rows"
  by (simp add: update_by_id_def)

lemma update_by_id_other:
  "r \<in> set rows \<Longrightarrow> id_col r \<noteq> i \<Longrightarrow> r \<in> set (update_by_id i f rows)"
  by (force simp add: update_by_id_def)

lemma update_by_id_hit:
  "r \<in> set rows \<Longrightarrow> id_col r = i \<Longrightarrow> f r \<in> set (update_by_id i f rows)"
  by (force simp add: update_by_id_def)

lemma apply_verification_id [simp]: "id_col (apply_verification v r) = id_col r"
  by (simp add: apply_verification_def)

lemma rowUpdate_id [simp]: "id_col (rowUpdate now livePrice pred x) = id_col x"
  by (simp add: rowUpdate_def Let_def split: option.split)

lemma batchRow_id [simp]: "id_col (batchRow now livePrice pred x) = id_col x"
  by (simp add: batchRow_def split: option.split)

lemma groupStep_id [simp]: "id_col (groupStep env pred x) = id_col x"
  by (simp add: groupStep_def split: option.split)

lemma batchStep_id [simp]: "id_col (batchStep env pred x) = id_col x"
  by (simp add: batchStep_def split: option.split)

lemma applyAll_ids:
  "(\<And>p x. id_col (g p x) = id_col x) \<Longrightarrow> map id_col (applyAll g ps rows) = map id_col rows"
  by (induction ps arbitrary: rows) (simp_all add: update_by_id_ids)

lemma applyAll_untouched:
  "r \<in> set rows \<Longrightarrow> id_col r \<notin> id_col ` set ps \<Longrightarrow> r \<in> set (applyAll g ps rows)"
  by (induction ps arbitrary: rows) (simp_all add: update_by_id_other)

lemma applyAll_touched_once:
  assumes "\<And>p x. id_col (g p x) = id_col x"
    and "r \<in> set rows" and "r \<in> set ps" and "distinct (map id_col ps)"
  shows "g r r \<in> set (applyAll g ps rows)"
  using assms(2-)
proof (induction ps arbitrary: rows)
  case Nil
  then show ?case by simp
next
  case (Cons p ps)
  show ?case
  proof (cases "p = r")
    case True
    have "g r r \<in> set (update_by_id (id_col r) (g r) rows)"
      using Cons.prems(1) by (simp add: update_by_id_hit)
    moreover have "id_col (g r r) \<notin> id_col ` set ps"
      using Cons.prems(3) True assms(1) by simp
    ultimately show ?thesis
      using True by (simp add: applyAll_untouched)
  next
    case False
    then have "r \<in> set ps" using Cons.prems(2) by simp
    moreover have "id_col p \<notin> id_col ` set ps"
      using Cons.prems(3) by simp
    then have "id_col r \<noteq> id_col p"
      using \<open>r \<in> set ps\<close> by (metis imageI)
    ultimately show ?thesis
      using Cons.IH [of "update_by_id (id_col p) (g p) rows"] Cons.prems
      by (simp add: update_by_id_other)
  qed
qed

lemma verifyPrediction_created_at [simp]:
  "verifyPrediction now (pred\<lparr>created_at := c\<rparr>) livePrice = verifyPrediction now pred livePrice"
  by (simp add: verifyPrediction_def Let_def split: option.split)

lemma verifyOne_rows:
  "fst (verifyOne now livePrice (rows, n) pred)
     = update_by_id (id_col pred) (rowUpdate now livePrice pred) rows"
  by (auto simp add: verifyOne_def rowUpdate_def Let_def update_by_id_def
      split: option.split cong: if_cong)

lemma foldl_verifyOne_rows:
  "fst (foldl (verifyOne now livePrice) (rows, n) ps) = applyAll (rowUpdate now livePrice) ps rows"
proof (induction ps arbitrary: rows n)
  case Nil
  then show ?case by simp
next
  case (Cons p ps)
  obtain rows' n' where st: "verifyOne now livePrice (rows, n) p = (rows', n')"
    by (cases "verifyOne now livePrice (rows, n) p")
  then have "rows' = update_by_id (id_col p) (rowUpdate now livePrice p) rows"
    using verifyOne_rows [of now livePrice rows n p] by simp
  then show ?case using st Cons.IH [of rows' n'] by simp
qed

lemma batchOne_rows:
  "fst (batchOne now livePrice (rows, n) pred)
     = update_by_id (id_col pred) (batchRow now livePrice pred) rows"
  by (auto simp add: batchOne_def batchRow_def update_by_id_def split: option.split cong: if_cong)

lemma foldl_batchOne_rows:
  "fst (foldl (batchOne now livePrice) (rows, n) ps) = applyAll (batchRow now livePrice) ps rows"
proof (induction ps arbitrary: rows n)
  case Nil
  then show ?case by simp
next
  case (Cons p ps)
  obtain rows' n' where st: "batchOne now livePrice (rows, n) p = (rows', n')"
    by (cases "batchOne now livePrice (rows, n) p")
  then have "rows' = update_by_id (id_col p) (batchRow now livePrice p) rows"
    using batchOne_rows [of now livePrice rows n p] by simp
  then show ?case using st Cons.IH [of rows' n'] by simp
qed

lemma applyAll_ident:
  "(\<And>p x. p \<in> set ps \<Longrightarrow> g p x = x) \<Longrightarrow> applyAll g ps rows = rows"
proof (induction ps arbitrary: rows)
  case Nil
  then show ?case by simp
next
  case (Cons p ps)
  have "g p = (\<lambda>x. x)" using Cons.prems by auto
  then show ?case using Cons by simp
qed

lemma applyAll_cong:
  "(\<And>p. p \<in> set ps \<Longrightarrow> g p = h p) \<Longrightarrow> applyAll g ps rows = applyAll h ps rows"
  by (induction ps arbitrary: rows) simp_all

lemma members_simps [simp]:
  "members [] = []"
  "members ((s, ps) # groups) = ps @ members groups"
  by (simp_all add: members_def)

lemma keyed_simps [simp]:
  "keyed []"
  "keyed ((s, ps) # groups) = ((\<forall>p \<in> set ps. symbol p = s) \<and> keyed groups)"
  by (simp_all add: keyed_def)

lemma group_insert_members:
  "set (members (group_insert p groups)) = insert p (set (members groups))"
  by (induction p groups rule: group_insert.induct) auto

lemma group_insert_keyed:
  "keyed groups \<Longrightarrow> keyed (group_insert p groups)"
  by (induction p groups rule: group_insert.induct) auto

lemma group_insert_distinct:
  "distinct (map id_col (members groups)) \<Longrightarrow> id_col p \<notin> id_col ` set (members groups)
   \<Longrightarrow> distinct (map id_col (members (group_insert p groups)))"
  by (induction p groups rule: group_insert.induct) (auto simp add: group_insert_members)

lemma foldl_group_members:
  "set (members (foldl (\<lambda>groups pred. group_insert pred groups) groups ps))
     = set ps \<union> set (members groups)"
  by (induction ps arbitrary: groups) (auto simp add: group_insert_members)

lemma foldl_group_keyed:
  "keyed groups \<Longrightarrow> keyed (foldl (\<lambda>groups pred. group_insert pred groups) groups ps)"
  by (induction ps arbitrary: groups) (simp_all add: group_insert_keyed)

lemma foldl_group_distinct:
  "distinct (map id_col ps) \<Longrightarrow> distinct (map id_col (members groups))
   \<Longrightarrow> id_col ` set ps \<inter> id_col ` set (members groups) = {}
   \<Longrightarrow> distinct (map id_col (members (foldl (\<lambda>groups pred. group_insert pred groups) groups ps)))"
proof (induction ps arbitrary: groups)
  case Nil
  then show ?case by simp
next
  case (Cons p ps)
  have d: "distinct (map id_col (members (group_insert p groups)))"
    using Cons.prems by (auto intro: group_insert_distinct)
  have "id_col ` set ps \<inter> id_col ` set (members (group_insert p groups)) = {}"
    using Cons.prems by (auto simp add: group_insert_members)
  then show ?case
    using Cons.IH [of "group_insert p groups"] Cons.prems(1) d by simp
qed

lemma reduceGroups_eq:
  "reduceGroups groups ps =
     (if list_ex (\<lambda>p. symbol p \<in> set inheritedKeys) ps then None
      else Some (foldl (\<lambda>groups pred. group_insert pred groups) groups ps))"
  by (induction ps arbitrary: groups) simp_all

lemma symbolGroups_members:
  "symbolGroups ps = Some groups \<Longrightarrow> set (members groups) = set ps"
  by (auto simp add: symbolGroups_def reduceGroups_eq foldl_group_members split: if_splits)

lemma symbolGroups_keyed: "symbolGroups ps = Some groups \<Longrightarrow> keyed groups"
  by (auto simp add: symbolGroups_def reduceGroups_eq foldl_group_keyed split: if_splits)

lemma symbolGroups_distinct:
  "symbolGroups ps = Some groups \<Longrightarrow> distinct (map id_col ps)
   \<Longrightarrow> distinct (map id_col (members groups))"
  by (auto simp add: symbolGroups_def reduceGroups_eq foldl_group_distinct split: if_splits)

lemma symbolGroups_defined:
  "\<forall>p \<in> set ps. symbol p \<notin> set inheritedKeys \<Longrightarrow> \<exists>groups. symbolGroups ps = Some groups"
  by (simp add: symbolGroups_def reduceGroups_eq list_ex_iff)

lemma verifyGroup_rows:
  assumes "\<forall>p \<in> set ps. symbol p = s"
  shows "fst (verifyGroup env (rows, n, e) (s, ps)) = applyAll (groupStep env) ps rows"
proof (cases "quotes env s")
  case None
  then have "applyAll (groupStep env) ps rows = rows"
    using assms by (intro applyAll_ident) (simp add: groupStep_def)
  then show ?thesis using None by (simp add: verifyGroup_def)
next
  case (Some livePrice)
  have "applyAll (groupStep env) ps rows = applyAll (rowUpdate (batch_now env) livePrice) ps rows"
    using assms Some by (intro applyAll_cong) (auto simp add: groupStep_def)
  then show ?thesis
    using Some foldl_verifyOne_rows [of "batch_now env" livePrice rows n ps]
    by (auto simp add: verifyGroup_def split: prod.split)
qed

lemma foldl_verifyGroup_rows:
  "keyed groups \<Longrightarrow>
   fst (foldl (verifyGroup env) (rows, n, e) groups) = applyAll (groupStep env) (members groups) rows"
proof (induction groups arbitrary: rows n e)
  case Nil
  then show ?case by simp
next
  case (Cons g groups)
  obtain s ps where g: "g = (s, ps)" by (cases g)
  obtain rows' n' e' where st: "verifyGroup env (rows, n, e) (s, ps) = (rows', n', e')"
    by (cases "verifyGroup env (rows, n, e) (s, ps)")
  have "rows' = applyAll (groupStep env) ps rows"
    using verifyGroup_rows [of ps s env rows n e] Cons.prems g st by simp
  then show ?case
    using Cons.IH [of rows' n' e'] Cons.prems g st by simp
qed

lemma orderCreatedDesc_set [simp]: "set (orderCreatedDesc rows) = set rows"
  by (simp add: orderCreatedDesc_def)

lemma orderCreatedDesc_distinct:
  "distinct (map id_col rows) \<Longrightarrow> distinct (map id_col (orderCreatedDesc rows))"
  by (simp add: distinct_map orderCreatedDesc_def)

lemma take_distinct_ids:
  "distinct (map id_col rows) \<Longrightarrow> distinct (map id_col (take n rows))"
  by (simp add: take_map [symmetric])

lemma selectPending_subset:
  "p \<in> set (selectPending force now rows) \<Longrightarrow> p \<in> set rows \<and> was_accurate p = None"
  by (auto simp add: selectPending_def dest!: in_set_takeD)

lemma selectPending_distinct:
  "distinct (map id_col rows) \<Longrightarrow> distinct (map id_col (selectPending force now rows))"
  by (simp add: selectPending_def take_distinct_ids orderCreatedDesc_distinct distinct_map_filter)

lemma batchSelect_subset:
  "p \<in> set (batchSelect now rows) \<Longrightarrow> p \<in> set rows \<and> was_accurate p = None"
  by (auto simp add: batchSelect_def dest!: in_set_takeD)

lemma verify_serve_rows:
  "fst (verify_serve env req rows) =
     (if v_is_options req \<or> selectError env \<noteq> None then rows
      else case symbolGroups (selectPending (forceVerify req) (batch_now env) rows) of
             None \<Rightarrow> rows
           | Some groups \<Rightarrow> applyAll (groupStep env) (members groups) rows)"
proof -
  let ?sel = "selectPending (forceVerify req) (batch_now env) rows"
  have run: "fst (foldl (verifyGroup env) (rows, 0, 0) groups)
          = applyAll (groupStep env) (members groups) rows"
    if "symbolGroups ?sel = Some groups" for groups
    by (rule foldl_verifyGroup_rows) (rule symbolGroups_keyed [OF that])
  have empty: "applyAll (groupStep env) (members groups) rows = rows"
    if "?sel = []" and "symbolGroups ?sel = Some groups" for groups
    using that by (simp add: symbolGroups_def)
  show ?thesis
  proof (cases "symbolGroups ?sel")
    case None
    then show ?thesis
      by (simp add: verify_serve_def Let_def split: option.split)
  next
    case (Some groups)
    then show ?thesis
      using run [OF Some] empty [OF _ Some]
      by (auto simp add: verify_serve_def Let_def split: option.split prod.split)
  qed
qed

lemma batchSymbol_rows:
  "fst (batchSymbol env preds (rows, n) s)
     = applyAll (batchStep env) (filter (\<lambda>p. symbol p = s) preds) rows"
proof (cases "quotes env s")
  case None
  then have "applyAll (batchStep env) (filter (\<lambda>p. symbol p = s) preds) rows = rows"
    by (intro applyAll_ident) (simp add: batchStep_def)
  then show ?thesis using None by (simp add: batchSymbol_def)
next
  case (Some livePrice)
  have "applyAll (batchStep env) (filter (\<lambda>p. symbol p = s) preds) rows
          = applyAll (batchRow (batch_now env) livePrice) (filter (\<lambda>p. symbol p = s) preds) rows"
    using Some by (intro applyAll_cong) (auto simp add: batchStep_def)
  then show ?thesis
    using Some foldl_batchOne_rows [of "batch_now env" livePrice rows n]
    by (simp add: batchSymbol_def)
qed

lemma foldl_batchSymbol_rows:
  "fst (foldl (batchSymbol env preds) (rows, n) syms)
     = applyAll (batchStep env) (concat (map (\<lambda>s. filter (\<lambda>p. symbol p = s) preds) syms)) rows"
proof (induction syms arbitrary: rows n)
  case Nil
  then show ?case by simp
next
  case (Cons s syms)
  obtain rows' n' where st: "batchSymbol env preds (rows, n) s = (rows', n')"
    by (cases "batchSymbol env preds (rows, n) s")
  have "rows' = applyAll (batchStep env) (filter (\<lambda>p. symbol p = s) preds) rows"
    using batchSymbol_rows [of env preds rows n s] st by simp
  then show ?case using Cons.IH [of rows' n'] st by simp
qed

lemma batchVerify_serve_rows:
  "\<exists>ps. set ps \<subseteq> set (batchSelect (batch_now env) rows)
      \<and> fst (batchVerify_serve env isOptions rows) = applyAll (batchStep env) ps rows"
proof -
  let ?sel = "batchSelect (batch_now env) rows"
  let ?ps = "concat (map (\<lambda>s. filter (\<lambda>p. symbol p = s) ?sel) (uniqueSymbols ?sel))"
  have sub: "set ?ps \<subseteq> set ?sel" by auto
  have run: "fst (foldl (batchSymbol env ?sel) (rows, 0) (uniqueSymbols ?sel))
          = applyAll (batchStep env) ?ps rows"
    by (rule foldl_batchSymbol_rows)
  show ?thesis
  proof (cases "isOptions \<or> selectError env \<noteq> None \<or> ?sel = []")
    case True
    then have "fst (batchVerify_serve env isOptions rows) = applyAll (batchStep env) [] rows"
      by (auto simp add: batchVerify_serve_def Let_def split: option.split)
    then show ?thesis by (intro exI [of _ "[]"]) simp
  next
    case False
    then have "fst (batchVerify_serve env isOptions rows) = applyAll (batchStep env) ?ps rows"
      using run by (auto simp add: batchVerify_serve_def Let_def split: option.split prod.split)
    then show ?thesis using sub by (intro exI [of _ ?ps]) simp
  qed
qed

lemma distinct_ids_eq:
  "distinct (map id_col rows) \<Longrightarrow> p \<in> set rows \<Longrightarrow> r \<in> set rows
   \<Longrightarrow> id_col p = id_col r \<Longrightarrow> p = r"
  by (auto simp add: distinct_map dest: inj_onD)

lemma row_of_member:
  "distinct (map id_col rows) \<Longrightarrow> r \<in> set rows \<Longrightarrow> row_of rows (id_col r) = Some r"
  unfolding row_of_def
proof (induction rows)
  case Nil
  then show ?case by simp
next
  case (Cons x rows)
  show ?case
  proof (cases "x = r")
    case True
    then show ?thesis by simp
  next
    case False
    then have mem: "r \<in> set rows" using Cons.prems(2) by simp
    have "id_col x \<notin> id_col ` set rows" using Cons.prems(1) by simp
    then have "id_col x \<noteq> id_col r" using mem by (metis imageI)
    then show ?thesis using Cons.IH Cons.prems(1) mem by simp
  qed
qed

lemma run_batch_ids: "map id_col (run_batch rows run) = map id_col rows"
proof (cases run)
  case (ScheduledRun env req)
  then show ?thesis by (simp add: verify_serve_rows applyAll_ids split: option.split)
next
  case (BatchVerifyRun env isOptions)
  obtain ps where "fst (batchVerify_serve env isOptions rows) = applyAll (batchStep env) ps rows"
    using batchVerify_serve_rows by blast
  then show ?thesis using BatchVerifyRun by (simp add: applyAll_ids)
qed

lemma run_batch_keeps_verified:
  assumes "distinct (map id_col rows)" and "r \<in> set rows" and "was_accurate r \<noteq> None"
  shows "r \<in> set (run_batch rows run)"
proof -
  have away: "id_col r \<notin> id_col ` set ps"
    if "\<And>p. p \<in> set ps \<Longrightarrow> p \<in> set rows \<and> was_accurate p = None" for ps
  proof
    assume "id_col r \<in> id_col ` set ps"
    then obtain p where p: "p \<in> set ps" "id_col p = id_col r" by auto
    have "p \<in> set rows" and pending: "was_accurate p = None"
      using that [OF p(1)] by simp_all
    then have "p = r" using assms(1,2) p(2) by (simp add: distinct_ids_eq)
    then show False using pending assms(3) by simp
  qed
  show ?thesis
  proof (cases run)
    case (ScheduledRun env req)
    let ?sel = "selectPending (forceVerify req) (batch_now env) rows"
    have "id_col r \<notin> id_col ` set (members groups)"
      if "symbolGroups ?sel = Some groups" for groups
      by (rule away) (use symbolGroups_members [OF that] in \<open>auto dest: selectPending_subset\<close>)
    then show ?thesis
      using ScheduledRun assms(2)
      by (simp add: verify_serve_rows applyAll_untouched split: option.split)
  next
    case (BatchVerifyRun env isOptions)
    obtain ps where ps: "set ps \<subseteq> set (batchSelect (batch_now env) rows)"
      "fst (batchVerify_serve env isOptions rows) = applyAll (batchStep env) ps rows"
      using batchVerify_serve_rows by blast
    have "id_col r \<notin> id_col ` set ps"
      by (rule away) (use ps(1) in \<open>auto dest: batchSelect_subset\<close>)
    then show ?thesis
      using BatchVerifyRun assms(2) ps(2) by (simp add: applyAll_untouched)
  qed
qed

lemma run_batches_keeps_verified:
  "distinct (map id_col rows) \<Longrightarrow> r \<in> set rows \<Longrightarrow> was_accurate r \<noteq> None
   \<Longrightarrow> r \<in> set (run_batches runs rows) \<and> distinct (map id_col (run_batches runs rows))"
  unfolding run_batches_def
proof (induction runs arbitrary: rows)
  case Nil
  then show ?case by simp
next
  case (Cons run runs)
  have "distinct (map id_col (run_batch rows run))"
    using Cons.prems(1) by (simp add: run_batch_ids)
  moreover have "r \<in> set (run_batch rows run)"
    using Cons.prems by (rule run_batch_keeps_verified)
  ultimately show ?case using Cons.IH Cons.prems(3) by simp
qed

text \<open>
  Claim C2. In a table with distinct ids, a row whose \<open>was_accurate\<close> is set (so in
  particular a row with all five verification columns set) is the same row, in every
  column, after any sequence of runs of the scheduled job and of \<open>batch-verify\<close>; and
  both selections return only rows whose \<open>was_accurate\<close> is null.
\<close>

theorem verified_rows_survive_batches:
  assumes "distinct (map id_col rows)" and "r \<in> set rows" and "was_accurate r \<noteq> None"
  shows "row_of (run_batches runs rows) (id_col r) = Some r
     \<and> set (selectPending force now rows) \<subseteq> {p. was_accurate p = None}
     \<and> set (batchSelect now rows) \<subseteq> {p. was_accurate p = None}"
proof -
  have "r \<in> set (run_batches runs rows)" and "distinct (map id_col (run_batches runs rows))"
    using run_batches_keeps_verified [OF assms] by simp_all
  then have "row_of (run_batches runs rows) (id_col r) = Some r"
    by (simp add: row_of_member)
  then show ?thesis
    by (auto dest: selectPending_subset batchSelect_subset)
qed

theorem verified_rows_survive_batches_witness:
  "row_of
     (run_batches
        [ScheduledRun \<lparr> quotes = (\<lambda>s. Some 103), batch_now = 90000000, selectError = None \<rparr>
           \<lparr> v_is_options = False, forceVerify = True \<rparr>,
         BatchVerifyRun \<lparr> quotes = (\<lambda>s. Some 90), batch_now = 99000000, selectError = None \<rparr> False]
        [(pending_record ''p1'' ''AAPL'' bullish 0.7 (Some 0) (Some 100))
           \<lparr> actual_outcome := Some neutral, price_at_verification := Some 101,
             price_change_percent := Some 1, was_accurate := Some True, verified_at := Some 50000000 \<rparr>,
         pending_record ''p2'' ''AAPL'' bearish 0.6 (Some 10) (Some 100)])
     ''p1''
   = Some ((pending_record ''p1'' ''AAPL'' bullish 0.7 (Some 0) (Some 100))
           \<lparr> actual_outcome := Some neutral, price_at_verification := Some 101,
             price_change_percent := Some 1, was_accurate := Some True, verified_at := Some 50000000 \<rparr>)"
  using verified_rows_survive_batches
    [of "[(pending_record ''p1'' ''AAPL'' bullish 0.7 (Some 0) (Some 100))
           \<lparr> actual_outcome := Some neutral, price_at_verification := Some 101,
             price_change_percent := Some 1, was_accurate := Some True, verified_at := Some 50000000 \<rparr>,
         pending_record ''p2'' ''AAPL'' bearish 0.6 (Some 10) (Some 100)]"
        "(pending_record ''p1'' ''AAPL'' bullish 0.7 (Some 0) (Some 100))
           \<lparr> actual_outcome := Some neutral, price_at_verification := Some 101,
             price_change_percent := Some 1, was_accurate := Some True, verified_at := Some 50000000 \<rparr>"
        "[ScheduledRun \<lparr> quotes = (\<lambda>s. Some 103), batch_now = 90000000, selectError = None \<rparr>
           \<lparr> v_is_options = False, forceVerify = True \<rparr>,
         BatchVerifyRun \<lparr> quotes = (\<lambda>s. Some 90), batch_now = 99000000, selectError = None \<rparr> False]"]
  by (simp add: pending_record_def)

text \<open>
  Claim C9, as the spec words it, fails: a selected record with a null \<open>created_at\<close> is
  repaired and then verified in the same pass. Here a bullish record made at price 100
  meets a live price of 103 and leaves the pass with \<open>created_at\<close> stamped and
  \<open>was_accurate = true\<close>.
\<close>

theorem repaired_record_verified_in_same_pass:
  "fst (verify_serve \<lparr> quotes = (\<lambda>s. Some 103), batch_now = 1000, selectError = None \<rparr>
          \<lparr> v_is_options = False, forceVerify = False \<rparr>
          [pending_record ''p1'' ''AAPL'' bullish 0.7 None (Some 100)])
   = [(pending_record ''p1'' ''AAPL'' bullish 0.7 None (Some 100))
        \<lparr> created_at := Some 1000, actual_outcome := Some bullish,
          price_at_verification := Some 103, price_change_percent := Some 3,
          was_accurate := Some True, verified_at := Some 1000 \<rparr>]"
  by (simp add: verify_serve_def selectPending_def orderCreatedDesc_def symbolGroups_def
      inheritedKeys_def verifyGroup_def verifyOne_def verifyPrediction_def priceChange_def
      verifyPrediction_outcome_def verifyPrediction_accurate_def update_by_id_def
      apply_verification_def pending_record_def Let_def)

text \<open>
  A pass in which the \<open>reduce\<close> throws changes nothing and answers with the failure.
\<close>

lemma verify_serve_aborts:
  assumes "\<not> v_is_options req" and "selectError env = None"
    and "p \<in> set (selectPending (forceVerify req) (batch_now env) rows)"
    and "symbol p \<in> set inheritedKeys"
  shows "verify_serve env req rows
     = (rows, VerifyFailed ''groups[pred.symbol].push is not a function'')"
proof -
  let ?sel = "selectPending (forceVerify req) (batch_now env) rows"
  have "symbolGroups ?sel = None"
    using assms(3,4) by (auto simp add: symbolGroups_def reduceGroups_eq list_ex_iff)
  moreover have "length ?sel \<noteq> 0"
    using assms(3) by auto
  ultimately show ?thesis
    using assms(1,2) by (simp add: verify_serve_def Let_def)
qed

text \<open>
  Claim C9, amended. In a pass that builds its groups (no selected symbol is the name of
  an inherited property of the grouping object), for every selected record whose
  \<open>created_at\<close> is null and whose symbol has a live price, the scheduled job stamps the
  current time into \<open>created_at\<close> and goes on to verify the record in the same pass:
  when \<open>price_at_prediction\<close> is present and positive the row receives
  \<open>actual_outcome\<close>, \<open>price_at_verification\<close>, \<open>price_change_percent\<close>,
  \<open>was_accurate\<close> and \<open>verified_at\<close>; when it is null, zero or negative only
  \<open>created_at\<close> changes. When no live price is to be had for its symbol the row is
  left as it was, unrepaired.
\<close>

theorem null_created_at_repaired_then_verified:
  assumes "distinct (map id_col rows)"
    and "\<not> v_is_options req"
    and "selectError env = None"
    and "\<forall>p \<in> set (selectPending (forceVerify req) (batch_now env) rows).
           symbol p \<notin> set inheritedKeys"
    and "r \<in> set (selectPending (forceVerify req) (batch_now env) rows)"
    and "created_at r = None"
  shows "row_of (fst (verify_serve env req rows)) (id_col r) = Some
     (case quotes env (symbol r) of
        None \<Rightarrow> r
      | Some livePrice \<Rightarrow>
          (case price_at_prediction r of
             None \<Rightarrow> r\<lparr>created_at := Some (batch_now env)\<rparr>
           | Some priceAtPrediction \<Rightarrow>
               if priceAtPrediction \<le> 0 then r\<lparr>created_at := Some (batch_now env)\<rparr>
               else r\<lparr> created_at := Some (batch_now env),
                       actual_outcome :=
                         Some (verifyPrediction_outcome (priceChange livePrice priceAtPrediction)),
                       price_at_verification := Some livePrice,
                       price_change_percent := Some (priceChange livePrice priceAtPrediction),
                       was_accurate :=
                         Some (verifyPrediction_accurate (prediction r)
                                 (priceChange livePrice priceAtPrediction)),
                       verified_at := Some (batch_now env) \<rparr>))"
proof -
  let ?sel = "selectPending (forceVerify req) (batch_now env) rows"
  obtain groups where groups: "symbolGroups ?sel = Some groups"
    using symbolGroups_defined [OF assms(4)] by auto
  let ?rows' = "applyAll (groupStep env) (members groups) rows"
  have rows': "fst (verify_serve env req rows) = ?rows'"
    using assms(2,3) groups by (simp add: verify_serve_rows)
  have "r \<in> set rows"
    using selectPending_subset [OF assms(5)] by simp
  moreover have "r \<in> set (members groups)"
    using assms(5) symbolGroups_members [OF groups] by simp
  moreover have "distinct (map id_col (members groups))"
    using assms(1) symbolGroups_distinct [OF groups] by (simp add: selectPending_distinct)
  ultimately have "groupStep env r r \<in> set ?rows'"
    by (intro applyAll_touched_once) simp_all
  moreover have "distinct (map id_col ?rows')"
    using assms(1) by (simp add: applyAll_ids)
  ultimately have "row_of ?rows' (id_col (groupStep env r r)) = Some (groupStep env r r)"
    by (rule row_of_member [rotated])
  then have "row_of (fst (verify_serve env req rows)) (id_col r) = Some (groupStep env r r)"
    using rows' by simp
  moreover have "groupStep env r r =
     (case quotes env (symbol r) of
        None \<Rightarrow> r
      | Some livePrice \<Rightarrow>
          (case price_at_prediction r of
             None \<Rightarrow> r\<lparr>created_at := Some (batch_now env)\<rparr>
           | Some priceAtPrediction \<Rightarrow>
               if priceAtPrediction \<le> 0 then r\<lparr>created_at := Some (batch_now env)\<rparr>
               else r\<lparr> created_at := Some (batch_now env),
                       actual_outcome :=
                         Some (verifyPrediction_outcome (priceChange livePrice priceAtPrediction)),
                       price_at_verification := Some livePrice,
                       price_change_percent := Some (priceChange livePrice priceAtPrediction),
                       was_accurate :=
                         Some (verifyPrediction_accurate (prediction r)
                                 (priceChange livePrice priceAtPrediction)),
                       verified_at := Some (batch_now env) \<rparr>))"
    using assms(6)
    by (auto simp add: groupStep_def rowUpdate_def verifyPrediction_def apply_verification_def
        Let_def split: option.split)
  ultimately show ?thesis by simp
qed

theorem null_created_at_repaired_then_verified_witness:
  "row_of (fst (verify_serve \<lparr> quotes = (\<lambda>s. Some 103), batch_now = 1000, selectError = None \<rparr>
          \<lparr> v_is_options = False, forceVerify = False \<rparr>
          [pending_record ''p1'' ''AAPL'' bullish 0.7 None (Some 100)])) ''p1''
   = Some ((pending_record ''p1'' ''AAPL'' bullish 0.7 None (Some 100))
        \<lparr> created_at := Some 1000, actual_outcome := Some bullish,
          price_at_verification := Some 103, price_change_percent := Some 3,
          was_accurate := Some True, verified_at := Some 1000 \<rparr>)"
  using null_created_at_repaired_then_verified
    [of "[pending_record ''p1'' ''AAPL'' bullish 0.7 None (Some 100)]"
        "\<lparr> v_is_options = False, forceVerify = False \<rparr>"
        "\<lparr> quotes = (\<lambda>s. Some 103), batch_now = 1000, selectError = None \<rparr>"
        "pending_record ''p1'' ''AAPL'' bullish 0.7 None (Some 100)"]
  by (simp add: selectPending_def orderCreatedDesc_def inheritedKeys_def priceChange_def
      verifyPrediction_outcome_def verifyPrediction_accurate_def
      pending_record_def Let_def)

end
